theory Spec2Isabelle
  imports Main
begin

section \<open>Python values handled by shade/task_manager.py\<close>

text \<open>
  The exception classes the module tells apart.  \<open>RetriableConnectionFailure\<close> is
  \<^verbatim>\<open>keystoneauth1.exceptions.RetriableConnectionFailure\<close>; \<open>JSONDecodeError\<close> is
  \<^verbatim>\<open>simplejson.scanner.JSONDecodeError\<close>; every other subclass of \<^verbatim>\<open>Exception\<close> is an
  \<open>OtherException\<close> carrying its class name.  An exception object is its class together with
  its argument (the message, or the missing key or attribute).  Exception objects are truthy,
  as instances of every class that does not override \<^verbatim>\<open>__bool__\<close> or \<^verbatim>\<open>__len__\<close> are.
\<close>

datatype exn_class =
    RetriableConnectionFailure
  | JSONDecodeError
  | ValueError
  | KeyError
  | TypeError
  | AttributeError
  | OtherException string

datatype exn = Exn (exn_type: exn_class) (exn_arg: string)

type_synonym traceback = "string list"

type_synonym raised = "exn \<times> traceback"

text \<open>
  The values a work function can return.  A float is kept as an opaque pair (mantissa,
  exponent): the module only tests its type.  A generator is the list of the items it has
  still to yield.  A dict is an association list.  \<open>PyObj\<close> is an instance of a client
  library class (class name, attributes).  \<open>PyResponse\<close> is a transport response: what
  \<^verbatim>\<open>.json()\<close> does (\<open>Inl msg\<close>: it raises a JSON decode error whose \<^verbatim>\<open>str()\<close> is \<open>msg\<close>;
  \<open>Inr v\<close>: it returns \<open>v\<close>), its \<^verbatim>\<open>.text\<close> and its \<^verbatim>\<open>.headers\<close>.
\<close>

datatype pyval =
    PyNone
  | PyBool bool
  | PyInt int
  | PyFloat int int
  | PyStr string
  | PyList "pyval list"
  | PyGenerator "pyval list"
  | PySet "pyval list"
  | PyTuple "pyval list"
  | PyDict "(string \<times> pyval) list"
  | PyObj string "(string \<times> pyval) list"
  | PyResponse "string + pyval" string "(string \<times> string) list"

type_synonym kwargs = "(string \<times> pyval) list"

subsection \<open>isinstance tests\<close>

fun isinstance_list :: "pyval \<Rightarrow> bool" where
  "isinstance_list (PyList _) = True"
| "isinstance_list _ = False"

fun isinstance_GeneratorType :: "pyval \<Rightarrow> bool" where
  "isinstance_GeneratorType (PyGenerator _) = True"
| "isinstance_GeneratorType _ = False"

fun isinstance_bool :: "pyval \<Rightarrow> bool" where
  "isinstance_bool (PyBool _) = True"
| "isinstance_bool _ = False"

text \<open>In Python \<^verbatim>\<open>bool\<close> is a subclass of \<^verbatim>\<open>int\<close>.\<close>

fun isinstance_int :: "pyval \<Rightarrow> bool" where
  "isinstance_int (PyInt _) = True"
| "isinstance_int (PyBool _) = True"
| "isinstance_int _ = False"

fun isinstance_float :: "pyval \<Rightarrow> bool" where
  "isinstance_float (PyFloat _ _) = True"
| "isinstance_float _ = False"

fun isinstance_string_types :: "pyval \<Rightarrow> bool" where
  "isinstance_string_types (PyStr _) = True"
| "isinstance_string_types _ = False"

fun isinstance_set :: "pyval \<Rightarrow> bool" where
  "isinstance_set (PySet _) = True"
| "isinstance_set _ = False"

fun isinstance_tuple :: "pyval \<Rightarrow> bool" where
  "isinstance_tuple (PyTuple _) = True"
| "isinstance_tuple _ = False"

subsection \<open>The result shape classifier\<close>

definition is_listlike :: "pyval \<Rightarrow> bool" where
  "is_listlike obj = (isinstance_list obj \<or> isinstance_GeneratorType obj)"

definition is_objlike :: "pyval \<Rightarrow> bool" where
  "is_objlike obj =
     (\<not> isinstance_bool obj \<and>
      \<not> isinstance_int obj \<and>
      \<not> isinstance_float obj \<and>
      \<not> isinstance_string_types obj \<and>
      \<not> isinstance_set obj \<and>
      \<not> isinstance_tuple obj)"

subsection \<open>The conversion utilities of shade.meta\<close>

text \<open>
  \<^verbatim>\<open>meta.obj_to_dict(obj, request_id=None)\<close> is a collaborator outside the module: every
  function below that reaches it takes it as the parameter \<open>o2d\<close>.  It and the result
  filter callbacks are functions of their arguments: they keep no state between calls.
\<close>

type_synonym obj_to_dict_fn = "pyval \<Rightarrow> string option \<Rightarrow> pyval"

text \<open>
  Iterating a list-like object: the items it produces and the object afterwards.  A list is
  unchanged; a generator has been run to its end.
\<close>

fun iterate :: "pyval \<Rightarrow> pyval list \<times> pyval" where
  "iterate (PyList xs) = (xs, PyList xs)"
| "iterate (PyGenerator xs) = (xs, PyGenerator [])"
| "iterate v = ([], v)"

text \<open>
  Modelled from the spec: \<^verbatim>\<open>meta.obj_list_to_dict(sequence, request_id=None)\<close> is not in
  the module.  The spec has it map each element of the sequence through the object-to-mapping
  conversion, giving an ordered sequence of mappings of the same length.  It returns the new
  list and the argument as the iteration leaves it.
\<close>

definition obj_list_to_dict :: "obj_to_dict_fn \<Rightarrow> pyval \<Rightarrow> string option \<Rightarrow> pyval \<times> pyval" where
  "obj_list_to_dict o2d obj_list request_id =
     (case iterate obj_list of
        (items, obj_list') \<Rightarrow> (PyList (map (\<lambda>obj. o2d obj request_id) items), obj_list'))"

section \<open>Tasks\<close>

text \<open>
  The attributes of a task object: \<^verbatim>\<open>_exception\<close>, \<^verbatim>\<open>_traceback\<close>, \<^verbatim>\<open>_result\<close>,
  \<^verbatim>\<open>_response\<close>, the event \<^verbatim>\<open>_finished\<close> (set or not), \<^verbatim>\<open>_request_id\<close>, \<^verbatim>\<open>args\<close> and
  \<^verbatim>\<open>name\<close>.
\<close>

record task =
  t_exception :: "exn option"
  t_traceback :: "traceback option"
  t_result :: pyval
  t_response :: pyval
  t_finished :: bool
  t_request_id :: "string option"
  t_args :: kwargs
  t_name :: string

text \<open>
  A work function gets the keyword arguments, acts on the remote side (the state \<open>'w\<close>) and
  returns a value or raises.  A client is its table of named methods.
\<close>

type_synonym 'w work = "kwargs \<Rightarrow> 'w \<Rightarrow> (raised + pyval) \<times> 'w"

type_synonym 'w client = "string \<Rightarrow> 'w work option"

text \<open>
  The work reference given to \<^verbatim>\<open>generate_task_class\<close>: a callable (with its \<^verbatim>\<open>__name__\<close>,
  if it has one) or the name of a method of the client.
\<close>

datatype 'w method_ref =
    Callable "string option" "'w work"
  | MethodName string

text \<open>
  The concrete classes of task objects: a subclass of \<^verbatim>\<open>BaseTask\<close>, of \<^verbatim>\<open>Task\<close> or of
  \<^verbatim>\<open>RequestTask\<close> that overrides \<^verbatim>\<open>main\<close> (class name, for a request task its
  \<^verbatim>\<open>result_key\<close>, and the body of \<^verbatim>\<open>main\<close>), or the class \<^verbatim>\<open>RunTask\<close> that
  \<^verbatim>\<open>generate_task_class\<close> returns, closed over \<^verbatim>\<open>method\<close>, \<^verbatim>\<open>name\<close> and
  \<^verbatim>\<open>result_filter_cb\<close>.
\<close>

datatype 'w task_class =
    BaseTask_subclass string "'w work"
  | Task_subclass string "'w work"
  | RequestTask_subclass string "string option" "'w work"
  | RunTask "'w method_ref" string "pyval \<Rightarrow> pyval"

fun class_name :: "'w task_class \<Rightarrow> string" where
  "class_name (BaseTask_subclass cn _) = cn"
| "class_name (Task_subclass cn _) = cn"
| "class_name (RequestTask_subclass cn _ _) = cn"
| "class_name (RunTask _ _ _) = ''RunTask''"

definition BaseTask_init :: "string \<Rightarrow> kwargs \<Rightarrow> task" where
  "BaseTask_init cn kw =
     \<lparr>t_exception = None, t_traceback = None, t_result = PyNone, t_response = PyNone,
      t_finished = False, t_request_id = None, t_args = kw, t_name = cn\<rparr>"

text \<open>Instantiating a task class with keyword arguments.\<close>

fun new_task :: "'w task_class \<Rightarrow> kwargs \<Rightarrow> task" where
  "new_task (RunTask method name cb) kw = (BaseTask_init ''RunTask'' kw)\<lparr>t_name := name\<rparr>"
| "new_task k kw = BaseTask_init (class_name k) kw"

definition result_filter_cb_default :: "pyval \<Rightarrow> pyval" where
  "result_filter_cb_default result = result"

definition generate_task_class ::
  "'w method_ref \<Rightarrow> string option \<Rightarrow> (pyval \<Rightarrow> pyval) \<Rightarrow> exn + 'w task_class" where
  "generate_task_class method name result_filter_cb =
     (case name of
        Some n \<Rightarrow> Inr (RunTask method n result_filter_cb)
      | None \<Rightarrow>
          (case method of
             Callable (Some n) f \<Rightarrow> Inr (RunTask method n result_filter_cb)
           | Callable None f \<Rightarrow> Inl (Exn AttributeError ''__name__'')
           | MethodName m \<Rightarrow> Inr (RunTask method m result_filter_cb)))"

subsection \<open>The environment of a run\<close>

text \<open>
  What a run acts on besides the task: the remote side, the lines written with
  \<^verbatim>\<open>client.log.debug\<close>, the lines written to the manager's logger, and a counter of the
  calls of \<^verbatim>\<open>main\<close> (kept for the statements about retries; the code does not read it).
\<close>

record 'w env =
  world :: 'w
  client_log :: "string list"
  manager_log :: "string list"
  main_calls :: nat

fun main :: "'w task_class \<Rightarrow> 'w client \<Rightarrow> task \<Rightarrow> 'w \<Rightarrow> (raised + pyval) \<times> 'w" where
  "main (RunTask (Callable n method) name cb) client t w = method (t_args t) w"
| "main (RunTask (MethodName m) name cb) client t w =
     (case client m of
        None \<Rightarrow> (Inl (Exn AttributeError m, [''main'']), w)
      | Some meth \<Rightarrow> meth (t_args t) w)"
| "main (BaseTask_subclass cn body) client t w = body (t_args t) w"
| "main (Task_subclass cn body) client t w = body (t_args t) w"
| "main (RequestTask_subclass cn key body) client t w = body (t_args t) w"

definition call_main ::
  "'w task_class \<Rightarrow> 'w client \<Rightarrow> task \<Rightarrow> 'w env \<Rightarrow> (raised + pyval) \<times> 'w env" where
  "call_main k client t env =
     (case main k client t (world env) of
        (r, w') \<Rightarrow> (r, env\<lparr>world := w', main_calls := Suc (main_calls env)\<rparr>))"

subsection \<open>done and exception, as the sequence of their attribute writes\<close>

text \<open>
  A method that writes task attributes is the list of its writes in program order;
  \<open>perform\<close> runs them, and \<open>states_during\<close> lists every state an observer can see while
  they run, start and end included.
\<close>

fun perform :: "(task \<Rightarrow> task) list \<Rightarrow> task \<Rightarrow> task" where
  "perform [] t = t"
| "perform (s # ss) t = perform ss (s t)"


definition BaseTask_done_steps :: "pyval \<Rightarrow> (task \<Rightarrow> task) list" where
  "BaseTask_done_steps result =
     [\<lambda>t. t\<lparr>t_result := result\<rparr>,
      \<lambda>t. t\<lparr>t_finished := True\<rparr>]"

definition exception_steps :: "exn \<Rightarrow> traceback \<Rightarrow> (task \<Rightarrow> task) list" where
  "exception_steps e tb =
     [\<lambda>t. t\<lparr>t_exception := Some e\<rparr>,
      \<lambda>t. t\<lparr>t_traceback := Some tb\<rparr>,
      \<lambda>t. t\<lparr>t_finished := True\<rparr>]"


definition exception :: "exn \<Rightarrow> traceback \<Rightarrow> task \<Rightarrow> task" where
  "exception e tb t = perform (exception_steps e tb) t"

text \<open>Subscripting \<^verbatim>\<open>result_json[self.result_key]\<close> with a string key.\<close>

fun getitem :: "pyval \<Rightarrow> string \<Rightarrow> exn + pyval" where
  "getitem (PyDict kvs) k =
     (case map_of kvs k of Some v \<Rightarrow> Inr v | None \<Rightarrow> Inl (Exn KeyError k))"
| "getitem v k = Inl (Exn TypeError ''indices must be integers or object is not subscriptable'')"

text \<open>The truth value of \<^verbatim>\<open>self.result_key\<close>: \<^verbatim>\<open>None\<close> and the empty string are false.\<close>

fun result_key_set :: "string option \<Rightarrow> bool" where
  "result_key_set None = False"
| "result_key_set (Some k) = (k \<noteq> [])"

text \<open>
  The branch \<^verbatim>\<open>if self.result_key: ... else: ...\<close> of \<^verbatim>\<open>RequestTask.done\<close>: the value
  to store, or the exception the subscript raises.
\<close>

fun narrow :: "string option \<Rightarrow> pyval \<Rightarrow> exn + pyval" where
  "narrow None result_json = Inr result_json"
| "narrow (Some k) result_json =
     (if result_key_set (Some k) then getitem result_json k else Inr result_json)"

text \<open>
  \<^verbatim>\<open>RequestTask.done\<close>: the writes it performs, the exception it raises after them (if any)
  and the lines it logs.  A value that is no response has no \<^verbatim>\<open>json\<close> attribute.
\<close>

fun RequestTask_done_steps ::
  "string option \<Rightarrow> pyval \<Rightarrow> (task \<Rightarrow> task) list \<times> raised option \<times> string list" where
  "RequestTask_done_steps result_key (PyResponse body txt hdrs) =
     (let (result_json, logged) =
            (case body of
               Inr j \<Rightarrow> (j, [])
             | Inl msg \<Rightarrow> (PyStr txt, [''Could not decode json in response: '' @ msg, txt]))
      in case narrow result_key result_json of
           Inl e \<Rightarrow>
             ([\<lambda>t. t\<lparr>t_response := PyResponse body txt hdrs\<rparr>], Some (e, [''done'']), logged)
         | Inr v \<Rightarrow>
             ([\<lambda>t. t\<lparr>t_response := PyResponse body txt hdrs\<rparr>,
               \<lambda>t. t\<lparr>t_result := v\<rparr>,
               \<lambda>t. t\<lparr>t_request_id := map_of hdrs ''x-openstack-request-id''\<rparr>,
               \<lambda>t. t\<lparr>t_finished := True\<rparr>], None, logged))"
| "RequestTask_done_steps result_key v =
     ([\<lambda>t. t\<lparr>t_response := v\<rparr>], Some (Exn AttributeError ''json'', [''done'']), [])"

text \<open>\<^verbatim>\<open>self.done\<close>, resolved on the class of the task.\<close>

fun done_steps ::
  "'w task_class \<Rightarrow> pyval \<Rightarrow> (task \<Rightarrow> task) list \<times> raised option \<times> string list" where
  "done_steps (RequestTask_subclass cn key body) r = RequestTask_done_steps key r"
| "done_steps k r = (BaseTask_done_steps r, None, [])"

subsection \<open>run\<close>

text \<open>One evaluation of \<^verbatim>\<open>self.done(self.main(client))\<close>: the exception it raises, if any.\<close>

definition attempt ::
  "'w task_class \<Rightarrow> 'w client \<Rightarrow> task \<Rightarrow> 'w env \<Rightarrow> raised option \<times> task \<times> 'w env" where
  "attempt k client t env =
     (case call_main k client t env of
        (Inl x, env1) \<Rightarrow> (Some x, t, env1)
      | (Inr v, env1) \<Rightarrow>
          (case done_steps k v of
             (steps, x, logged) \<Rightarrow>
               (x, perform steps t, env1\<lparr>client_log := client_log env1 @ logged\<rparr>)))"

definition retry_message :: "'w task_class \<Rightarrow> string" where
  "retry_message k = ''Connection failure for '' @ class_name k @ '', retrying''"

definition run :: "'w task_class \<Rightarrow> 'w client \<Rightarrow> task \<Rightarrow> 'w env \<Rightarrow> task \<times> 'w env" where
  "run k client t env =
     (case attempt k client t env of
        (None, t1, env1) \<Rightarrow> (t1, env1)
      | (Some (e, tb), t1, env1) \<Rightarrow>
          if exn_type e = RetriableConnectionFailure then
            (case attempt k client t1
                    (env1\<lparr>client_log := client_log env1 @ [retry_message k]\<rparr>) of
               (None, t2, env2) \<Rightarrow> (t2, env2)
             | (Some (e2, tb2), t2, env2) \<Rightarrow> (exception e2 tb2 t2, env2))
          else (exception e tb t1, env1))"

subsection \<open>wait\<close>

text \<open>
  What a call of \<^verbatim>\<open>wait\<close> does in the calling thread: it blocks for ever (the event is not
  set and nothing else runs), raises, or returns a value.
\<close>

datatype outcome =
    Blocked
  | Raised exn "traceback option"
  | Returned pyval

definition BaseTask_wait :: "task \<Rightarrow> bool \<Rightarrow> outcome" where
  "BaseTask_wait t raw =
     (if \<not> t_finished t then Blocked
      else case t_exception t of
             Some e \<Rightarrow> Raised e (t_traceback t)
           | None \<Rightarrow> Returned (t_result t))"

text \<open>
  The conversion at the end of \<^verbatim>\<open>Task.wait\<close> and \<^verbatim>\<open>RequestTask.wait\<close>, with the request
  id the latter passes on.  Iterating the stored result can change it, so the task is
  returned too.
\<close>

definition convert_result :: "obj_to_dict_fn \<Rightarrow> string option \<Rightarrow> task \<Rightarrow> outcome \<times> task" where
  "convert_result o2d request_id t =
     (if is_listlike (t_result t) then
        (case obj_list_to_dict o2d (t_result t) request_id of
           (converted, left) \<Rightarrow> (Returned converted, t\<lparr>t_result := left\<rparr>))
      else if is_objlike (t_result t) then (Returned (o2d (t_result t) request_id), t)
      else (Returned (t_result t), t))"

definition Task_wait :: "obj_to_dict_fn \<Rightarrow> task \<Rightarrow> bool \<Rightarrow> outcome \<times> task" where
  "Task_wait o2d t raw =
     (case BaseTask_wait t False of
        Blocked \<Rightarrow> (Blocked, t)
      | Raised e tb \<Rightarrow> (Raised e tb, t)
      | Returned r \<Rightarrow>
          if raw then (Returned (t_result t), t)
          else convert_result o2d None t)"

definition RequestTask_wait :: "obj_to_dict_fn \<Rightarrow> task \<Rightarrow> bool \<Rightarrow> outcome \<times> task" where
  "RequestTask_wait o2d t raw =
     (case BaseTask_wait t False of
        Blocked \<Rightarrow> (Blocked, t)
      | Raised e tb \<Rightarrow> (Raised e tb, t)
      | Returned r \<Rightarrow>
          if raw then (Returned (t_result t), t)
          else convert_result o2d (t_request_id t) t)"

text \<open>
  \<^verbatim>\<open>RunTask.wait\<close> first calls \<^verbatim>\<open>Task.wait\<close> with no argument, so with \<^verbatim>\<open>raw=False\<close>, and
  drops what it returns.
\<close>

definition RunTask_wait ::
  "obj_to_dict_fn \<Rightarrow> (pyval \<Rightarrow> pyval) \<Rightarrow> task \<Rightarrow> bool \<Rightarrow> outcome \<times> task" where
  "RunTask_wait o2d result_filter_cb t raw =
     (case Task_wait o2d t False of
        (Blocked, t') \<Rightarrow> (Blocked, t')
      | (Raised e tb, t') \<Rightarrow> (Raised e tb, t')
      | (Returned r, t') \<Rightarrow>
          if raw then (Returned (t_result t'), t')
          else (Returned (result_filter_cb (t_result t')), t'))"

text \<open>\<^verbatim>\<open>task.wait\<close>, resolved on the class of the task.\<close>

fun wait :: "'w task_class \<Rightarrow> obj_to_dict_fn \<Rightarrow> task \<Rightarrow> bool \<Rightarrow> outcome \<times> task" where
  "wait (BaseTask_subclass cn body) o2d t raw = (BaseTask_wait t raw, t)"
| "wait (Task_subclass cn body) o2d t raw = Task_wait o2d t raw"
| "wait (RequestTask_subclass cn key body) o2d t raw = RequestTask_wait o2d t raw"
| "wait (RunTask method name cb) o2d t raw = RunTask_wait o2d cb t raw"

section \<open>The task manager\<close>

text \<open>
  A \<^verbatim>\<open>TaskManager\<close> object: \<^verbatim>\<open>name\<close>, \<^verbatim>\<open>_client\<close>, \<^verbatim>\<open>_result_filter_cb\<close>, and an attribute
  \<^verbatim>\<open>manager\<close> that neither the class nor \<^verbatim>\<open>__init__\<close> defines: it is \<open>None\<close> (reading it
  raises \<^verbatim>\<open>AttributeError\<close>) unless a subclass or a consumer has put a manager there.
\<close>

datatype 'w TaskManager =
  TaskManager (tm_name: string) (tm_client: "'w client")
    (tm_result_filter_cb: "pyval \<Rightarrow> pyval") (tm_manager: "'w TaskManager option")

definition TaskManager_init ::
  "'w client \<Rightarrow> string \<Rightarrow> (pyval \<Rightarrow> pyval) option \<Rightarrow> 'w TaskManager" where
  "TaskManager_init client name result_filter_cb =
     TaskManager name client
       (case result_filter_cb of None \<Rightarrow> result_filter_cb_default | Some f \<Rightarrow> f)
       None"

text \<open>
  \<^verbatim>\<open>submit_task\<close>.  The second debug line also carries the elapsed wall-clock time, which
  is left out here.
\<close>

definition submit_task ::
  "obj_to_dict_fn \<Rightarrow> 'w TaskManager \<Rightarrow> 'w task_class \<Rightarrow> task \<Rightarrow> bool \<Rightarrow> 'w env
     \<Rightarrow> outcome \<times> task \<times> 'w env" where
  "submit_task o2d self k task raw env =
     (let env1 = env\<lparr>manager_log := manager_log env @
                   [''Manager '' @ tm_name self @ '' running task '' @ t_name task]\<rparr>
      in case run k (tm_client self) task env1 of
           (task1, env2) \<Rightarrow>
             (let env3 = env2\<lparr>manager_log := manager_log env2 @
                           [''Manager '' @ tm_name self @ '' ran task '' @ t_name task1]\<rparr>
              in case wait k o2d task1 raw of
                   (out, task2) \<Rightarrow> (out, task2, env3)))"

text \<open>
  \<^verbatim>\<open>submit_function\<close>.  Its last line is
  \<^verbatim>\<open>return self.manager.submit_task(task_class(**kwargs))\<close>: the attribute \<^verbatim>\<open>manager\<close> is
  read before the task is created.
\<close>

definition submit_function ::
  "obj_to_dict_fn \<Rightarrow> 'w TaskManager \<Rightarrow> 'w method_ref \<Rightarrow> string option
     \<Rightarrow> (pyval \<Rightarrow> pyval) option \<Rightarrow> kwargs \<Rightarrow> 'w env \<Rightarrow> outcome \<times> 'w env" where
  "submit_function o2d self method name result_filter_cb kw env =
     (let cb = (case result_filter_cb of None \<Rightarrow> tm_result_filter_cb self | Some f \<Rightarrow> f)
      in case generate_task_class method name cb of
           Inl e \<Rightarrow> (Raised e (Some [''generate_task_class'']), env)
         | Inr task_class \<Rightarrow>
             (case tm_manager self of
                None \<Rightarrow> (Raised (Exn AttributeError ''manager'') (Some [''submit_function'']), env)
              | Some m \<Rightarrow>
                  (case submit_task o2d m task_class (new_task task_class kw) False env of
                     (out, task', env') \<Rightarrow> (out, env'))))"

section \<open>Example tasks\<close>

text \<open>
  Concrete collaborators and work functions on which the statements below are evaluated.
  The remote side is the number of calls it has received.  The example converter turns an
  object into the mapping of its attributes, with the request id merged in when there is
  one, and leaves every other value as it is.
\<close>

fun example_obj_to_dict :: obj_to_dict_fn where
  "example_obj_to_dict (PyObj cn attrs) request_id =
     PyDict (attrs @ (case request_id of None \<Rightarrow> [] | Some r \<Rightarrow> [(''request_id'', PyStr r)]))"
| "example_obj_to_dict v request_id = v"

definition no_methods :: "nat client" where
  "no_methods m = None"

definition env0 :: "nat env" where
  "env0 = \<lparr>world = 0, client_log = [], manager_log = [], main_calls = 0\<rparr>"

definition two_items :: "pyval list" where
  "two_items = [PyObj ''Item'' [(''id'', PyInt 1)], PyObj ''Item'' [(''id'', PyInt 2)]]"

definition list_items :: "nat work" where
  "list_items kw w = (Inr (PyList two_items), Suc w)"

definition stream_items :: "nat work" where
  "stream_items kw w = (Inr (PyGenerator two_items), Suc w)"

definition timeout_error :: raised where
  "timeout_error = (Exn RetriableConnectionFailure ''timed out'', [''main'', ''send''])"

definition quota_error :: raised where
  "quota_error = (Exn (OtherException ''OverLimit'') ''quota exceeded'', [''main'', ''create''])"

text \<open>Fails with the retriable failure on the first call and returns 7 afterwards.\<close>

definition flaky :: "nat work" where
  "flaky kw w = (if w = 0 then Inl timeout_error else Inr (PyInt 7), Suc w)"

definition always_timeout :: "nat work" where
  "always_timeout kw w = (Inl timeout_error, Suc w)"

definition over_quota :: "nat work" where
  "over_quota kw w = (Inl quota_error, Suc w)"

text \<open>Returns 1 on the first call and fails on every later one.\<close>

definition once_only :: "nat work" where
  "once_only kw w = (if w = 0 then Inr (PyInt 1) else Inl quota_error, Suc w)"

definition returns_none :: "nat work" where
  "returns_none kw w = (Inr PyNone, Suc w)"

definition returns_text :: "nat work" where
  "returns_text kw w = (Inr (PyStr ''ACTIVE''), Suc w)"

definition html_response :: pyval where
  "html_response =
     PyResponse (Inl ''No JSON object could be decoded'') ''<html>Bad Gateway</html>''
       [(''x-openstack-request-id'', ''req-1'')]"

definition servers_response :: pyval where
  "servers_response =
     PyResponse (Inr (PyDict [(''servers'', PyList [PyDict [(''id'', PyInt 1)]])])) ''{}''
       [(''x-openstack-request-id'', ''req-2'')]"

definition get_html :: "nat work" where
  "get_html kw w = (Inr html_response, Suc w)"

definition get_servers :: "nat work" where
  "get_servers kw w = (Inr servers_response, Suc w)"

subsection \<open>Example task classes and the tasks they leave behind\<close>

definition example_RunTask :: "nat task_class" where
  "example_RunTask =
     RunTask (Callable (Some ''list_items'') list_items) ''list_items'' result_filter_cb_default"

definition listed :: task where
  "listed = fst (run example_RunTask no_methods (new_task example_RunTask []) env0)"










definition ListItems :: "nat task_class" where
  "ListItems = Task_subclass ''ListItems'' list_items"

definition listed_by_class :: task where
  "listed_by_class = fst (run ListItems no_methods (new_task ListItems []) env0)"

definition KeyedHtml :: "nat task_class" where
  "KeyedHtml = RequestTask_subclass ''KeyedHtml'' (Some ''servers'') get_html"

definition keyed_html :: task where
  "keyed_html = fst (run KeyedHtml no_methods (new_task KeyedHtml []) env0)"

definition PlainHtml :: "nat task_class" where
  "PlainHtml = RequestTask_subclass ''PlainHtml'' None get_html"

definition ListServers :: "nat task_class" where
  "ListServers = RequestTask_subclass ''ListServers'' (Some ''servers'') get_servers"

definition ListFlavors :: "nat task_class" where
  "ListFlavors = RequestTask_subclass ''ListFlavors'' (Some ''flavors'') get_servers"

definition GetStatus :: "nat task_class" where
  "GetStatus = Task_subclass ''GetStatus'' returns_text"

definition status_task :: task where
  "status_task = fst (run GetStatus no_methods (new_task GetStatus []) env0)"



section \<open>Basic facts\<close>


lemma exception_eq:
  "exception e tb t = t\<lparr>t_exception := Some e, t_traceback := Some tb, t_finished := True\<rparr>"
  by (simp add: exception_def exception_steps_def)

lemmas wait_defs =
  BaseTask_wait_def Task_wait_def RequestTask_wait_def RunTask_wait_def convert_result_def
  obj_list_to_dict_def is_listlike_def is_objlike_def

lemmas run_defs =
  run_def attempt_def call_main_def BaseTask_done_steps_def exception_eq retry_message_def
  BaseTask_init_def

lemmas example_defs =
  env0_def no_methods_def two_items_def list_items_def stream_items_def timeout_error_def
  quota_error_def flaky_def always_timeout_def over_quota_def once_only_def returns_none_def
  returns_text_def html_response_def servers_response_def get_html_def get_servers_def
  result_filter_cb_default_def

subsection \<open>What wait leaves of the task\<close>

lemma convert_result_keeps_task:
  "\<not> isinstance_GeneratorType (t_result t) \<Longrightarrow> snd (convert_result o2d rid t) = t"
  by (cases "t_result t") (simp_all add: convert_result_def obj_list_to_dict_def)

lemma Task_wait_keeps_task:
  "\<not> isinstance_GeneratorType (t_result t) \<Longrightarrow> snd (Task_wait o2d t raw) = t"
  by (simp add: Task_wait_def BaseTask_wait_def convert_result_keeps_task split: option.splits)





subsection \<open>What run does, by the outcomes of main\<close>


lemma narrow_not_retriable:
  "narrow key j = Inl e \<Longrightarrow> exn_type e \<noteq> RetriableConnectionFailure"
  by (cases key; cases j) (auto split: if_splits option.splits)

lemma RequestTask_done_steps_not_retriable:
  "RequestTask_done_steps key v = (steps, Some (e, tb), l) \<Longrightarrow>
     exn_type e \<noteq> RetriableConnectionFailure"
  by (cases v) (auto split: sum.splits prod.splits dest: narrow_not_retriable)

lemma done_steps_not_retriable:
  "done_steps k v = (steps, Some (e, tb), l) \<Longrightarrow> exn_type e \<noteq> RetriableConnectionFailure"
  by (cases k) (auto dest: RequestTask_done_steps_not_retriable)


lemma attempt_return:
  "call_main k c t env = (Inr v, env1) \<Longrightarrow> done_steps k v = (steps, x, l) \<Longrightarrow>
     attempt k c t env = (x, perform steps t, env1\<lparr>client_log := client_log env1 @ l\<rparr>)"
  by (simp add: attempt_def)

lemma run_first_return:
  assumes "call_main k c t env = (Inr v, env1)" and "done_steps k v = (steps, x, l)"
  shows "run k c t env =
           (case x of None \<Rightarrow> perform steps t
            | Some (e, tb) \<Rightarrow> exception e tb (perform steps t),
            env1\<lparr>client_log := client_log env1 @ l\<rparr>)"
proof (cases x)
  case None
  with assms show ?thesis by (simp add: run_def attempt_return)
next
  case (Some a)
  obtain e tb where a: "a = (e, tb)" by (cases a)
  with Some assms(2) have "exn_type e \<noteq> RetriableConnectionFailure"
    by (auto dest: done_steps_not_retriable)
  with Some a assms show ?thesis by (simp add: run_def attempt_return)
qed




subsection \<open>The example tasks, evaluated\<close>

lemma listed_eq:
  "listed =
    \<lparr>t_exception = None, t_traceback = None, t_result = PyList two_items, t_response = PyNone,
      t_finished = True, t_request_id = None, t_args = [], t_name = ''list_items''\<rparr>"
  by (simp add: listed_def example_RunTask_def run_defs list_items_def env0_def)

lemma listed_by_class_eq:
  "listed_by_class =
    \<lparr>t_exception = None, t_traceback = None, t_result = PyList two_items, t_response = PyNone,
      t_finished = True, t_request_id = None, t_args = [], t_name = ''ListItems''\<rparr>"
  by (simp add: listed_by_class_def ListItems_def run_defs list_items_def env0_def)



lemma status_task_eq:
  "status_task =
    \<lparr>t_exception = None, t_traceback = None, t_result = PyStr ''ACTIVE'', t_response = PyNone,
      t_finished = True, t_request_id = None, t_args = [], t_name = ''GetStatus''\<rparr>"
  by (simp add: status_task_def GetStatus_def run_defs returns_text_def env0_def)




lemma keyed_html_eq:
  "keyed_html =
    \<lparr>t_exception =
        Some (Exn TypeError ''indices must be integers or object is not subscriptable''),
      t_traceback = Some [''done''], t_result = PyNone, t_response = html_response,
      t_finished = True, t_request_id = None, t_args = [], t_name = ''KeyedHtml''\<rparr>"
  by (simp add: keyed_html_def KeyedHtml_def run_defs get_html_def html_response_def env0_def)

lemma scalar_not_converted:
  assumes "isinstance_bool r \<or> isinstance_int r \<or> isinstance_float r \<or>
           isinstance_string_types r \<or> isinstance_set r \<or> isinstance_tuple r"
  shows "\<not> is_listlike r \<and> \<not> is_objlike r"
  using assms by (cases r) (simp_all add: is_listlike_def is_objlike_def)

section \<open>submit_function\<close>

text \<open>
  Claim C1 says that \<^verbatim>\<open>submit_function\<close> builds a task with the task factory and hands it
  to \<^verbatim>\<open>submit_task\<close>, whose result it returns.  The code reads \<^verbatim>\<open>self.manager\<close> to reach
  \<^verbatim>\<open>submit_task\<close>, an attribute no \<^verbatim>\<open>TaskManager\<close> has: on every manager that
  \<^verbatim>\<open>__init__\<close> builds, for every work reference, name, filter and keyword arguments, the call
  raises \<^verbatim>\<open>AttributeError\<close> and leaves the environment untouched, so the work never runs.
\<close>

theorem submit_function_reads_missing_manager:
  "\<exists>e tb. submit_function o2d (TaskManager_init client name cb) method nm rcb kw env
            = (Raised e tb, env) \<and> exn_type e = AttributeError"
  by (simp add: submit_function_def TaskManager_init_def generate_task_class_def
      split: option.splits method_ref.splits)

section \<open>Tasks made by generate_task_class\<close>

text \<open>
  Claim C2 says that \<^verbatim>\<open>wait(raw=False)\<close> of a factory-made task returns the result filter
  applied to the normalized result.  It does not: on the task that ran \<^verbatim>\<open>list_items\<close>, the
  conversion of \<^verbatim>\<open>Task.wait\<close> gives the list of mappings, and the wait of the task returns
  something else than the filter applied to that list.
\<close>

theorem RunTask_wait_filter_counterexample:
  "fst (Task_wait example_obj_to_dict listed False)
     = Returned (PyList [PyDict [(''id'', PyInt 1)], PyDict [(''id'', PyInt 2)]]) \<and>
   fst (wait example_RunTask example_obj_to_dict listed False)
     \<noteq> Returned (result_filter_cb_default
                    (PyList [PyDict [(''id'', PyInt 1)], PyDict [(''id'', PyInt 2)]]))"
  by (simp add: listed_eq wait_defs two_items_def example_RunTask_def
      result_filter_cb_default_def)

text \<open>
  Claim C2 as amended: for every factory-made task that finished without error and whose
  stored result is not a generator, \<^verbatim>\<open>wait(raw=False)\<close> returns the result filter applied to
  the stored result itself (what the inherited \<^verbatim>\<open>Task.wait\<close> computes is dropped), and
  \<^verbatim>\<open>wait(raw=True)\<close> returns the stored result; neither changes the task.
\<close>

theorem RunTask_wait_filters_stored_result:
  assumes "t_finished t" and "t_exception t = None"
    and "\<not> isinstance_GeneratorType (t_result t)"
  shows "wait (RunTask method name cb) o2d t False = (Returned (cb (t_result t)), t) \<and>
         wait (RunTask method name cb) o2d t True = (Returned (t_result t), t)"
proof -
  have "snd (Task_wait o2d t False) = t"
    using assms(3) by (rule Task_wait_keeps_task)
  moreover have "\<exists>r. fst (Task_wait o2d t False) = Returned r"
    using assms(1,2) by (simp add: Task_wait_def BaseTask_wait_def convert_result_def split: prod.splits)
  ultimately obtain r where "Task_wait o2d t False = (Returned r, t)"
    by (metis prod.collapse)
  then show ?thesis by (simp add: RunTask_wait_def)
qed

text \<open>
  The amended claim on the task that ran \<^verbatim>\<open>list_items\<close> with the default filter: both
  calls return the original list of objects.
\<close>

theorem RunTask_wait_filters_stored_result_witness:
  "t_finished listed \<and> t_exception listed = None \<and>
   \<not> isinstance_GeneratorType (t_result listed) \<and>
   wait example_RunTask example_obj_to_dict listed False = (Returned (PyList two_items), listed) \<and>
   wait example_RunTask example_obj_to_dict listed True = (Returned (PyList two_items), listed)"
  using RunTask_wait_filters_stored_result
          [of listed "Callable (Some ''list_items'') list_items" "''list_items''"
              result_filter_cb_default example_obj_to_dict]
  by (simp add: listed_eq example_RunTask_def result_filter_cb_default_def)

section \<open>The single retry of run\<close>



section \<open>Errors seen through wait\<close>



section \<open>Waiting twice\<close>




section \<open>The conversion of Task.wait\<close>

text \<open>
  Claim C9: for every task of a \<^verbatim>\<open>Task\<close> subclass that finished without error,
  \<^verbatim>\<open>wait(raw=False)\<close> returns a boolean, integer, float, string, set or tuple result
  unchanged; a result is converted only when it is list-like (each item is converted) or
  object-like (the object is converted).
\<close>

theorem Task_wait_passes_scalars:
  assumes "t_finished t" and "t_exception t = None"
  shows "(isinstance_bool (t_result t) \<or> isinstance_int (t_result t) \<or>
          isinstance_float (t_result t) \<or> isinstance_string_types (t_result t) \<or>
          isinstance_set (t_result t) \<or> isinstance_tuple (t_result t) \<longrightarrow>
            wait (Task_subclass cn body) o2d t False = (Returned (t_result t), t)) \<and>
         (\<not> is_listlike (t_result t) \<and> \<not> is_objlike (t_result t) \<longrightarrow>
            wait (Task_subclass cn body) o2d t False = (Returned (t_result t), t)) \<and>
         (is_listlike (t_result t) \<longrightarrow>
            fst (wait (Task_subclass cn body) o2d t False)
              = Returned (PyList (map (\<lambda>obj. o2d obj None) (fst (iterate (t_result t)))))) \<and>
         (\<not> is_listlike (t_result t) \<and> is_objlike (t_result t) \<longrightarrow>
            wait (Task_subclass cn body) o2d t False = (Returned (o2d (t_result t) None), t))"
  using assms scalar_not_converted [of "t_result t"]
  by (auto simp: Task_wait_def BaseTask_wait_def convert_result_def obj_list_to_dict_def
      split: prod.splits)

text \<open>
  The claim on a task whose result is a string, and on one whose result is a list.
\<close>

theorem Task_wait_passes_scalars_witness:
  "t_finished status_task \<and> t_exception status_task = None \<and>
   isinstance_string_types (t_result status_task) \<and>
   wait GetStatus example_obj_to_dict status_task False = (Returned (PyStr ''ACTIVE''), status_task) \<and>
   is_listlike (t_result listed_by_class) \<and>
   fst (wait ListItems example_obj_to_dict listed_by_class False)
     = Returned (PyList [PyDict [(''id'', PyInt 1)], PyDict [(''id'', PyInt 2)]])"
  using Task_wait_passes_scalars [of status_task "''GetStatus''" returns_text example_obj_to_dict]
    Task_wait_passes_scalars [of listed_by_class "''ListItems''" list_items example_obj_to_dict]
  by (simp add: status_task_eq GetStatus_def listed_by_class_eq ListItems_def two_items_def
      is_listlike_def)



section \<open>The completion signal\<close>

















section \<open>RequestTask.done\<close>

lemma narrow_unset: "\<not> result_key_set key \<Longrightarrow> narrow key j = Inr j"
  by (cases key) simp_all

text \<open>
  Claim C7 says that a request task whose body fails to decode stores the raw text and does
  not end in error.  With a \<^verbatim>\<open>result_key\<close> configured it does end in error: the key is
  looked up in the text, which raises, and the text is not stored.
\<close>

theorem RequestTask_undecodable_body_counterexample:
  "t_finished keyed_html \<and>
   t_response keyed_html = html_response \<and>
   t_exception keyed_html
     = Some (Exn TypeError ''indices must be integers or object is not subscriptable'') \<and>
   t_result keyed_html \<noteq> PyStr ''<html>Bad Gateway</html>'' \<and>
   fst (wait KeyedHtml example_obj_to_dict keyed_html True)
     = Raised (Exn TypeError ''indices must be integers or object is not subscriptable'')
         (Some [''done''])"
  by (simp add: keyed_html_eq KeyedHtml_def wait_defs)

text \<open>
  Claim C7 as amended: for every request task with no \<^verbatim>\<open>result_key\<close> configured whose
  response body fails JSON decoding, \<^verbatim>\<open>done\<close> stores the raw text as the result and logs
  the decode failure and the text; the run adds no error to the task, and \<^verbatim>\<open>wait\<close>
  returns the text whatever the raw flag.
\<close>

theorem RequestTask_falls_back_to_text:
  assumes "\<not> result_key_set key"
    and "call_main (RequestTask_subclass cn key body) c t env
           = (Inr (PyResponse (Inl msg) txt hdrs), env1)"
  shows "done_steps (RequestTask_subclass cn key body) (PyResponse (Inl msg) txt hdrs) =
           ([\<lambda>t. t\<lparr>t_response := PyResponse (Inl msg) txt hdrs\<rparr>,
             \<lambda>t. t\<lparr>t_result := PyStr txt\<rparr>,
             \<lambda>t. t\<lparr>t_request_id := map_of hdrs ''x-openstack-request-id''\<rparr>,
             \<lambda>t. t\<lparr>t_finished := True\<rparr>], None,
            [''Could not decode json in response: '' @ msg, txt]) \<and>
         run (RequestTask_subclass cn key body) c t env =
           (t\<lparr>t_response := PyResponse (Inl msg) txt hdrs, t_result := PyStr txt,
              t_request_id := map_of hdrs ''x-openstack-request-id'', t_finished := True\<rparr>,
            env1\<lparr>client_log := client_log env1 @
                    [''Could not decode json in response: '' @ msg, txt]\<rparr>) \<and>
         t_exception (fst (run (RequestTask_subclass cn key body) c t env)) = t_exception t \<and>
         (t_exception t = None \<longrightarrow>
            fst (wait (RequestTask_subclass cn key body) o2d
                   (fst (run (RequestTask_subclass cn key body) c t env)) raw)
              = Returned (PyStr txt))"
proof -
  have d: "done_steps (RequestTask_subclass cn key body) (PyResponse (Inl msg) txt hdrs) =
     ([\<lambda>t. t\<lparr>t_response := PyResponse (Inl msg) txt hdrs\<rparr>,
       \<lambda>t. t\<lparr>t_result := PyStr txt\<rparr>,
       \<lambda>t. t\<lparr>t_request_id := map_of hdrs ''x-openstack-request-id''\<rparr>,
       \<lambda>t. t\<lparr>t_finished := True\<rparr>], None,
      [''Could not decode json in response: '' @ msg, txt])"
    using assms(1) by (simp add: narrow_unset)
  have r: "run (RequestTask_subclass cn key body) c t env =
           (t\<lparr>t_response := PyResponse (Inl msg) txt hdrs, t_result := PyStr txt,
              t_request_id := map_of hdrs ''x-openstack-request-id'', t_finished := True\<rparr>,
            env1\<lparr>client_log := client_log env1 @
                    [''Could not decode json in response: '' @ msg, txt]\<rparr>)"
    using run_first_return [OF assms(2) d] by simp
  have w: "t_exception (fst (run (RequestTask_subclass cn key body) c t env)) = t_exception t \<and>
         (t_exception t = None \<longrightarrow>
            fst (wait (RequestTask_subclass cn key body) o2d
                   (fst (run (RequestTask_subclass cn key body) c t env)) raw)
              = Returned (PyStr txt))"
    by (simp add: r wait_defs)
  from d r w show ?thesis by blast
qed

text \<open>
  The amended claim on a request task without result key that gets an HTML body.
\<close>

theorem RequestTask_falls_back_to_text_witness:
  "\<not> result_key_set None \<and>
   fst (run PlainHtml no_methods (new_task PlainHtml []) env0) =
     (new_task PlainHtml [])\<lparr>t_response := html_response,
        t_result := PyStr ''<html>Bad Gateway</html>'', t_request_id := Some ''req-1'',
        t_finished := True\<rparr> \<and>
   client_log (snd (run PlainHtml no_methods (new_task PlainHtml []) env0)) =
     [''Could not decode json in response: No JSON object could be decoded'',
      ''<html>Bad Gateway</html>''] \<and>
   fst (wait PlainHtml example_obj_to_dict
          (fst (run PlainHtml no_methods (new_task PlainHtml []) env0)) False)
     = Returned (PyStr ''<html>Bad Gateway</html>'')"
proof -
  have c: "call_main (RequestTask_subclass ''PlainHtml'' None get_html) no_methods
             (new_task PlainHtml []) env0
           = (Inr (PyResponse (Inl ''No JSON object could be decoded'')
                     ''<html>Bad Gateway</html>'' [(''x-openstack-request-id'', ''req-1'')]),
              env0\<lparr>world := 1, main_calls := 1\<rparr>)"
    by (simp add: call_main_def get_html_def html_response_def env0_def)
  have n: "t_exception (new_task PlainHtml []) = None"
    by (simp add: PlainHtml_def BaseTask_init_def)
  from RequestTask_falls_back_to_text
         [of None "''PlainHtml''" get_html no_methods "new_task PlainHtml []" env0
             "''No JSON object could be decoded''" "''<html>Bad Gateway</html>''"
             "[(''x-openstack-request-id'', ''req-1'')]" "env0\<lparr>world := 1, main_calls := 1\<rparr>"
             example_obj_to_dict False]
       c n
  show ?thesis
    by (simp add: PlainHtml_def html_response_def env0_def wait_defs)
qed

text \<open>
  Claim C8: for a request task with a (non-empty) \<^verbatim>\<open>result_key\<close> whose body parses to a
  mapping, the stored result is the value at that key when the key is there; when it is
  not, the \<^verbatim>\<open>KeyError\<close> is stored as the task's error like any other failure, and
  \<^verbatim>\<open>wait\<close> raises it.
\<close>

theorem RequestTask_narrows_to_result_key:
  assumes "key \<noteq> []"
    and "call_main (RequestTask_subclass cn (Some key) body) c t env
           = (Inr (PyResponse (Inr (PyDict kvs)) txt hdrs), env1)"
  shows "(map_of kvs key = Some v \<longrightarrow>
            fst (run (RequestTask_subclass cn (Some key) body) c t env) =
              t\<lparr>t_response := PyResponse (Inr (PyDict kvs)) txt hdrs, t_result := v,
                t_request_id := map_of hdrs ''x-openstack-request-id'', t_finished := True\<rparr>) \<and>
         (map_of kvs key = None \<longrightarrow>
            fst (run (RequestTask_subclass cn (Some key) body) c t env) =
              exception (Exn KeyError key) [''done'']
                (t\<lparr>t_response := PyResponse (Inr (PyDict kvs)) txt hdrs\<rparr>) \<and>
            wait (RequestTask_subclass cn (Some key) body) o2d
                (fst (run (RequestTask_subclass cn (Some key) body) c t env)) raw
              = (Raised (Exn KeyError key) (Some [''done'']),
                 fst (run (RequestTask_subclass cn (Some key) body) c t env)))"
proof (intro conjI impI)
  assume m: "map_of kvs key = Some v"
  with assms(1) have d: "done_steps (RequestTask_subclass cn (Some key) body)
       (PyResponse (Inr (PyDict kvs)) txt hdrs) =
     ([\<lambda>t. t\<lparr>t_response := PyResponse (Inr (PyDict kvs)) txt hdrs\<rparr>,
       \<lambda>t. t\<lparr>t_result := v\<rparr>,
       \<lambda>t. t\<lparr>t_request_id := map_of hdrs ''x-openstack-request-id''\<rparr>,
       \<lambda>t. t\<lparr>t_finished := True\<rparr>], None, [])"
    by simp
  show "fst (run (RequestTask_subclass cn (Some key) body) c t env) =
              t\<lparr>t_response := PyResponse (Inr (PyDict kvs)) txt hdrs, t_result := v,
                t_request_id := map_of hdrs ''x-openstack-request-id'', t_finished := True\<rparr>"
    using run_first_return [OF assms(2) d] by simp
next
  assume m: "map_of kvs key = None"
  with assms(1) have d: "done_steps (RequestTask_subclass cn (Some key) body)
       (PyResponse (Inr (PyDict kvs)) txt hdrs) =
     ([\<lambda>t. t\<lparr>t_response := PyResponse (Inr (PyDict kvs)) txt hdrs\<rparr>],
      Some (Exn KeyError key, [''done'']), [])"
    by simp
  show r: "fst (run (RequestTask_subclass cn (Some key) body) c t env) =
              exception (Exn KeyError key) [''done'']
                (t\<lparr>t_response := PyResponse (Inr (PyDict kvs)) txt hdrs\<rparr>)"
    using run_first_return [OF assms(2) d] by simp
  show "wait (RequestTask_subclass cn (Some key) body) o2d
                (fst (run (RequestTask_subclass cn (Some key) body) c t env)) raw
              = (Raised (Exn KeyError key) (Some [''done'']),
                 fst (run (RequestTask_subclass cn (Some key) body) c t env))"
    unfolding r by (simp add: exception_eq wait_defs)
qed

text \<open>
  The claim on a response that has the key \<^verbatim>\<open>servers\<close>, asked for \<^verbatim>\<open>servers\<close> and
  for \<^verbatim>\<open>flavors\<close>.
\<close>

theorem RequestTask_narrows_to_result_key_witness:
  "fst (run ListServers no_methods (new_task ListServers []) env0) =
     (new_task ListServers [])\<lparr>t_response := servers_response,
        t_result := PyList [PyDict [(''id'', PyInt 1)]], t_request_id := Some ''req-2'',
        t_finished := True\<rparr> \<and>
   fst (run ListFlavors no_methods (new_task ListFlavors []) env0) =
     exception (Exn KeyError ''flavors'') [''done'']
       ((new_task ListFlavors [])\<lparr>t_response := servers_response\<rparr>) \<and>
   fst (wait ListFlavors example_obj_to_dict
          (fst (run ListFlavors no_methods (new_task ListFlavors []) env0)) False)
     = Raised (Exn KeyError ''flavors'') (Some [''done''])"
proof -
  have c1: "call_main (RequestTask_subclass ''ListServers'' (Some ''servers'') get_servers)
              no_methods (new_task ListServers []) env0
           = (Inr (PyResponse (Inr (PyDict [(''servers'', PyList [PyDict [(''id'', PyInt 1)]])]))
                     ''{}'' [(''x-openstack-request-id'', ''req-2'')]),
              env0\<lparr>world := 1, main_calls := 1\<rparr>)"
    by (simp add: call_main_def get_servers_def servers_response_def env0_def)
  have c2: "call_main (RequestTask_subclass ''ListFlavors'' (Some ''flavors'') get_servers)
              no_methods (new_task ListFlavors []) env0
           = (Inr (PyResponse (Inr (PyDict [(''servers'', PyList [PyDict [(''id'', PyInt 1)]])]))
                     ''{}'' [(''x-openstack-request-id'', ''req-2'')]),
              env0\<lparr>world := 1, main_calls := 1\<rparr>)"
    by (simp add: call_main_def get_servers_def servers_response_def env0_def)
  have k: "''servers'' \<noteq> []" "''flavors'' \<noteq> []" by simp_all
  from RequestTask_narrows_to_result_key
         [OF k(1) c1, of "PyList [PyDict [(''id'', PyInt 1)]]" example_obj_to_dict False]
  have A: "fst (run ListServers no_methods (new_task ListServers []) env0) =
     (new_task ListServers [])\<lparr>t_response := servers_response,
        t_result := PyList [PyDict [(''id'', PyInt 1)]], t_request_id := Some ''req-2'',
        t_finished := True\<rparr>"
    by (simp add: ListServers_def servers_response_def)
  from RequestTask_narrows_to_result_key [OF k(2) c2, of PyNone example_obj_to_dict False]
  have B: "fst (run ListFlavors no_methods (new_task ListFlavors []) env0) =
     exception (Exn KeyError ''flavors'') [''done'']
       ((new_task ListFlavors [])\<lparr>t_response := servers_response\<rparr>) \<and>
   fst (wait ListFlavors example_obj_to_dict
          (fst (run ListFlavors no_methods (new_task ListFlavors []) env0)) False)
     = Raised (Exn KeyError ''flavors'') (Some [''done''])"
    by (simp add: ListFlavors_def servers_response_def exception_eq wait_defs)
  show ?thesis by (rule conjI [OF A B])
qed

end
